theory Spec2Isabelle
  imports Complex_Main
begin

section \<open>Python values and exceptions\<close>

text \<open>
  The exceptions the modelled code can raise. A function of the source that may raise
  returns \<open>py_error + 'a\<close>, with \<open>Inl\<close> for the exception; a method that changes its object
  returns the exception, if any, together with the object as the call leaves it.
\<close>

datatype py_error =
    NotImplementedError
  | ZeroDivisionError
  | OverflowError
  | TypeError
  | ValueError
  | UnicodeEncodeError

subsection \<open>Floats\<close>

text \<open>
  A Python float is an IEEE 754 binary64 number. A finite float is modelled as the real
  number it denotes (\<open>0.0\<close> and \<open>-0.0\<close>, which Python's \<open>==\<close> does not tell apart, are
  both \<open>0\<close>). Converting an int and dividing two ints produce the float nearest to the
  exact result, ties going to the even significand, and raise OverflowError
  when that exact result is too large for a float.

  \<open>round_double x\<close> is the binary64 number nearest to \<open>x\<close>: with \<open>e\<close> the binary
  exponent of \<open>x\<close>, not below the exponent \<open>-1022\<close> of the subnormal numbers, the numbers
  of that binade are the integer multiples of \<open>2 ^ (e - 52)\<close>.
\<close>

definition round_half_even :: "real \<Rightarrow> int" where
  "round_half_even x =
     (let f = \<lfloor>x\<rfloor>; d = x - of_int f
      in if d < 1 / 2 then f else if d > 1 / 2 then f + 1 else if even f then f else f + 1)"

definition double_exponent :: "real \<Rightarrow> int" where
  "double_exponent x = max (- 1022) \<lfloor>log 2 \<bar>x\<bar>\<rfloor>"

definition round_double :: "real \<Rightarrow> real" where
  "round_double x =
     (if x = 0 then 0
      else of_int (round_half_even (x / 2 powi (double_exponent x - 52))) *
           2 powi (double_exponent x - 52))"

text \<open>
  The largest float is \<open>2 ^ 1024 - 2 ^ 971\<close>. A real of magnitude \<open>2 ^ 1024 - 2 ^ 970\<close> or
  more, half way to \<open>2 ^ 1024\<close>, has no nearest float: the conversion overflows.
\<close>

definition double_overflow :: "real \<Rightarrow> bool" where
  "double_overflow x \<longleftrightarrow> 2 ^ 1024 - 2 ^ 970 \<le> \<bar>x\<bar>"

text \<open>\<open>float(i)\<close> for an int \<open>i\<close>.\<close>

definition py_float :: "int \<Rightarrow> py_error + real" where
  "py_float i =
     (if double_overflow (real_of_int i) then Inl OverflowError
      else Inr (round_double (real_of_int i)))"

text \<open>
  Python's true division \<open>a / b\<close> of two ints: ZeroDivisionError for a zero divisor,
  OverflowError when the quotient is too large for a float, and the float nearest to the
  quotient otherwise.
\<close>

definition py_truediv :: "int \<Rightarrow> int \<Rightarrow> py_error + real" where
  "py_truediv a b =
     (if b = 0 then Inl ZeroDivisionError
      else if double_overflow (real_of_int a / real_of_int b) then Inl OverflowError
      else Inr (round_double (real_of_int a / real_of_int b)))"

section \<open>algorithms/heartbeat.py\<close>

datatype PeerStatus = ALIVE | SUSPECT | DEAD

record PeerState =
  ps_node_id :: string
  ps_status :: PeerStatus
  consecutive_misses :: int
  last_pong_round :: int
  total_pings_sent :: int
  total_pongs_received :: int

text \<open>
  \<^verbatim>\<open>
  def response_rate(self) -> float:
      if self.total_pings_sent == 0:
          return 1.0
      return self.total_pongs_received / self.total_pings_sent
  \<close>
\<close>

definition response_rate :: "PeerState \<Rightarrow> py_error + real" where
  "response_rate p =
     (if total_pings_sent p = 0 then Inr 1
      else py_truediv (total_pongs_received p) (total_pings_sent p))"

text \<open>
  HeartbeatNode. A Python dict is modelled as the list of its items in insertion order
  (keys pairwise distinct), so that \<open>len\<close> is \<open>length\<close>.
  \<^verbatim>\<open>
  def __init__(self, node_id, miss_threshold=3, grace_period=2):
      self.node_id = node_id
      self.miss_threshold = miss_threshold
      self.grace_period = grace_period
      self.peers = {}
      self._log = []
  \<close>
  The constructor has no statement that can raise; its result is still typed as
  \<open>py_error + HeartbeatNode\<close> so that a failing construction would be a value.
\<close>

record HeartbeatNode =
  hb_node_id :: string
  miss_threshold :: int
  grace_period :: int
  hb_peers :: "(string \<times> PeerState) list"
  hb_log :: "string list"

definition HeartbeatNode_init :: "string \<Rightarrow> int \<Rightarrow> int \<Rightarrow> py_error + HeartbeatNode" where
  "HeartbeatNode_init nid mt gp =
     Inr \<lparr>hb_node_id = nid, miss_threshold = mt, grace_period = gp, hb_peers = [], hb_log = []\<rparr>"

section \<open>algorithms/gossip.py\<close>

record PeerEntry =
  pe_node_id :: string
  pe_queue_url :: string
  last_seen :: real
  ttl :: int


record GossipNode =
  gn_node_id :: string
  gn_queue_url :: string
  gn_peers :: "(string \<times> PeerEntry) list"
  gn_log :: "string list"

text \<open>
  \<^verbatim>\<open>
  def __init__(self, node_id, queue_url=""):
      self.node_id = node_id
      self.queue_url = queue_url or f"sqs://fake/{node_id}"
      self.peers = {}
      self._log = []
  \<close>
\<close>

definition GossipNode_init :: "string \<Rightarrow> string \<Rightarrow> GossipNode" where
  "GossipNode_init nid url =
     \<lparr>gn_node_id = nid,
      gn_queue_url = (if url = [] then ''sqs://fake/'' @ nid else url),
      gn_peers = [], gn_log = []\<rparr>"




definition get_peer_list_message :: "GossipNode \<Rightarrow> py_error + (string \<times> string) list list" where
  "get_peer_list_message g = Inl NotImplementedError"


definition age_entries :: "GossipNode \<Rightarrow> py_error option \<times> GossipNode" where
  "age_entries g = (Some NotImplementedError, g)"

definition pick_gossip_target :: "GossipNode \<Rightarrow> py_error + string option" where
  "pick_gossip_target g = Inl NotImplementedError"


section \<open>algorithms/choking.py\<close>

record PeerTracker =
  pt_node_id :: string
  contributed :: int
  received :: int
  is_choked :: bool
  is_interested :: bool
  rounds_choked :: int

text \<open>
  \<^verbatim>\<open>
  def reciprocity_ratio(self) -> float:
      if self.received == 0:
          return float(self.contributed)
      return self.contributed / self.received
  \<close>
\<close>

definition reciprocity_ratio :: "PeerTracker \<Rightarrow> py_error + real" where
  "reciprocity_ratio t =
     (if received t = 0 then py_float (contributed t)
      else py_truediv (contributed t) (received t))"

section \<open>algorithms/reputation.py\<close>

record ReputationRecord =
  rr_node_id :: string
  reports_total :: int
  reports_accurate :: int
  heartbeats_total :: int
  heartbeats_responded :: int
  contributions :: int
  consumptions :: int
  decay_factor :: real
  trust_score :: real

text \<open>
  \<^verbatim>\<open>
  def accuracy(self):
      if self.reports_total == 0: return 0.5
      return self.reports_accurate / self.reports_total
  def uptime(self):
      if self.heartbeats_total == 0: return 0.5
      return self.heartbeats_responded / self.heartbeats_total
  def reciprocity(self):
      total = self.contributions + self.consumptions
      if total == 0: return 0.5
      return self.contributions / total
  \<close>
\<close>

definition accuracy :: "ReputationRecord \<Rightarrow> py_error + real" where
  "accuracy r =
     (if reports_total r = 0 then Inr (1 / 2)
      else py_truediv (reports_accurate r) (reports_total r))"

definition uptime :: "ReputationRecord \<Rightarrow> py_error + real" where
  "uptime r =
     (if heartbeats_total r = 0 then Inr (1 / 2)
      else py_truediv (heartbeats_responded r) (heartbeats_total r))"

definition reciprocity :: "ReputationRecord \<Rightarrow> py_error + real" where
  "reciprocity r =
     (let total = contributions r + consumptions r
      in if total = 0 then Inr (1 / 2) else py_truediv (contributions r) total)"

text \<open>
  ChokingNode and ReputationNode: the constructors only store their arguments and start
  with empty tables and logs.
\<close>

record ChokingNode =
  ck_node_id :: string
  max_unchoked :: int
  optimistic_interval :: int
  ck_peers :: "(string \<times> PeerTracker) list"
  ck_round :: int
  optimistic_peer :: "string option"
  ck_log :: "string list"

definition ChokingNode_init :: "string \<Rightarrow> int \<Rightarrow> int \<Rightarrow> ChokingNode" where
  "ChokingNode_init nid mu oi =
     \<lparr>ck_node_id = nid, max_unchoked = mu, optimistic_interval = oi, ck_peers = [],
      ck_round = 0, optimistic_peer = None, ck_log = []\<rparr>"

record ReputationNode =
  rp_node_id :: string
  rp_peers :: "(string \<times> ReputationRecord) list"
  rp_log :: "string list"

definition ReputationNode_init :: "string \<Rightarrow> ReputationNode" where
  "ReputationNode_init nid = \<lparr>rp_node_id = nid, rp_peers = [], rp_log = []\<rparr>"

section \<open>protocol.py\<close>

text \<open>
  The values a message carries are those of a decoded JSON document. A message is a dict
  from field names to such values. A Python \<open>str\<close> is modelled by a \<open>string\<close>, whose
  characters are the 256 code points up to U+00FF; text beyond them is outside the model.
  A float is a finite number or one of the three special values.
\<close>

datatype pyfloat = Finite real | PlusInfinity | MinusInfinity | NaN

datatype pyval =
    PNone
  | PBool bool
  | PInt int
  | PFloat pyfloat
  | PStr string
  | PList "pyval list"
  | PDict "(string \<times> pyval) list"

type_synonym message = "string \<rightharpoonup> pyval"

abbreviation HELLO :: string where "HELLO \<equiv> ''HELLO''"
abbreviation PEER_LIST :: string where "PEER_LIST \<equiv> ''PEER_LIST''"
abbreviation PING :: string where "PING \<equiv> ''PING''"
abbreviation PONG :: string where "PONG \<equiv> ''PONG''"
abbreviation VIEW_EVENT :: string where "VIEW_EVENT \<equiv> ''VIEW_EVENT''"
abbreviation AUDIT_RESULT :: string where "AUDIT_RESULT \<equiv> ''AUDIT_RESULT''"
abbreviation CHOKE :: string where "CHOKE \<equiv> ''CHOKE''"
abbreviation UNCHOKE :: string where "UNCHOKE \<equiv> ''UNCHOKE''"

definition ALL_TYPES :: "string list" where
  "ALL_TYPES = [HELLO, PEER_LIST, PING, PONG, VIEW_EVENT, AUDIT_RESULT, CHOKE, UNCHOKE]"

text \<open>\<open>msg.get(key, default)\<close> on a dict.\<close>

definition dict_get :: "message \<Rightarrow> string \<Rightarrow> pyval \<Rightarrow> pyval" where
  "dict_get m k d = (case m k of None \<Rightarrow> d | Some v \<Rightarrow> v)"

text \<open>
  \<^verbatim>\<open>
  def _base(msg_type, sender):
      return {"type": msg_type, "sender": sender,
              "timestamp": datetime.now(timezone.utc).isoformat(),
              "msg_id": str(uuid.uuid4())[:8]}
  \<close>
  The two library calls are inputs of the model: \<open>now\<close> is the string returned by
  \<open>datetime.now(timezone.utc).isoformat()\<close> and \<open>uuid4\<close> the string \<open>str(uuid.uuid4())\<close>,
  which has 36 characters. The slice \<open>[:8]\<close> is \<open>take 8\<close>.
\<close>

definition base :: "string \<Rightarrow> string \<Rightarrow> string \<Rightarrow> string \<Rightarrow> message" where
  "base now uuid4 msg_type sender =
     [''type'' \<mapsto> PStr msg_type, ''sender'' \<mapsto> PStr sender,
      ''timestamp'' \<mapsto> PStr now, ''msg_id'' \<mapsto> PStr (take 8 uuid4)]"

definition hello :: "string \<Rightarrow> string \<Rightarrow> string \<Rightarrow> string \<Rightarrow> message" where
  "hello now uuid4 sender queue_url =
     (base now uuid4 HELLO sender)(''queue_url'' \<mapsto> PStr queue_url)"

text \<open>\<open>peers\<close> is a list of dicts from strings to strings.\<close>

definition peer_list :: "string \<Rightarrow> string \<Rightarrow> string \<Rightarrow> (string \<times> string) list list \<Rightarrow> message" where
  "peer_list now uuid4 sender peers =
     (base now uuid4 PEER_LIST sender)
       (''peers'' \<mapsto> PList (map (\<lambda>d. PDict (map (\<lambda>(k, v). (k, PStr v)) d)) peers))"

definition ping :: "string \<Rightarrow> string \<Rightarrow> string \<Rightarrow> int \<Rightarrow> message" where
  "ping now uuid4 sender seq = (base now uuid4 PING sender)(''seq'' \<mapsto> PInt seq)"

definition pong :: "string \<Rightarrow> string \<Rightarrow> string \<Rightarrow> int \<Rightarrow> message" where
  "pong now uuid4 sender seq = (base now uuid4 PONG sender)(''seq'' \<mapsto> PInt seq)"

definition view_event ::
  "string \<Rightarrow> string \<Rightarrow> string \<Rightarrow> string \<Rightarrow> string \<Rightarrow> int \<Rightarrow> string \<Rightarrow> message" where
  "view_event now uuid4 sender event_id content_id count ad_id =
     (base now uuid4 VIEW_EVENT sender)
       (''event_id'' \<mapsto> PStr event_id, ''content_id'' \<mapsto> PStr content_id,
        ''count'' \<mapsto> PInt count, ''ad_id'' \<mapsto> PStr ad_id)"

text \<open>
  \<^verbatim>\<open>
  msg["confidence"] = round(confidence, 4)
  msg["voters"] = voters or []
  \<close>
  Python's \<open>round(x, 4)\<close> on floats is the parameter \<open>round4\<close>.
\<close>

definition audit_result ::
  "(pyfloat \<Rightarrow> pyfloat) \<Rightarrow> string \<Rightarrow> string \<Rightarrow> string \<Rightarrow> string \<Rightarrow> int \<Rightarrow> pyfloat
     \<Rightarrow> string list option \<Rightarrow> message" where
  "audit_result round4 now uuid4 sender content_id agreed_count confidence voters =
     (base now uuid4 AUDIT_RESULT sender)
       (''content_id'' \<mapsto> PStr content_id, ''agreed_count'' \<mapsto> PInt agreed_count,
        ''confidence'' \<mapsto> PFloat (round4 confidence),
        ''voters'' \<mapsto> PList (map PStr (case voters of None \<Rightarrow> [] | Some vs \<Rightarrow> vs)))"

text \<open>
  The builtin as the language reference gives it for a float and \<open>ndigits = 4\<close>: an
  infinity or a NaN is returned as it is, and a finite float becomes the float nearest to
  the decimal with four places that is nearest to it (ties to the even last digit).
\<close>

fun py_round4 :: "pyfloat \<Rightarrow> pyfloat" where
  "py_round4 (Finite x) = Finite (round_double (of_int (round_half_even (x * 10 ^ 4)) / 10 ^ 4))"
| "py_round4 PlusInfinity = PlusInfinity"
| "py_round4 MinusInfinity = MinusInfinity"
| "py_round4 NaN = NaN"

definition choke :: "string \<Rightarrow> string \<Rightarrow> string \<Rightarrow> message" where
  "choke now uuid4 sender = base now uuid4 CHOKE sender"

definition unchoke :: "string \<Rightarrow> string \<Rightarrow> string \<Rightarrow> message" where
  "unchoke now uuid4 sender = base now uuid4 UNCHOKE sender"

text \<open>
  The base fields of the wire format: \<open>type\<close>, \<open>sender\<close> and \<open>timestamp\<close> are present
  with the given strings, and \<open>msg_id\<close> is present and is a string of 8 characters.
\<close>

definition has_base_fields :: "string \<Rightarrow> string \<Rightarrow> string \<Rightarrow> message \<Rightarrow> bool" where
  "has_base_fields msg_type sender now m \<longleftrightarrow>
     m ''type'' = Some (PStr msg_type) \<and> m ''sender'' = Some (PStr sender) \<and>
     m ''timestamp'' = Some (PStr now) \<and>
     (case m ''msg_id'' of Some (PStr i) \<Rightarrow> length i = 8 | _ \<Rightarrow> False)"

subsection \<open>encode and decode\<close>

















section \<open>node.py\<close>

text \<open>
  What the runtime reads from Python itself is collected in an environment:
  \<^item> \<open>clock n\<close> is the string \<open>datetime.now().strftime("%H:%M:%S")\<close> read when the line
    number \<open>n\<close> of the output is printed;
  \<^item> \<open>py_str v\<close> is the text an f-string puts for the value \<open>v\<close>, or the exception that
    formatting it raises;
  \<^item> \<open>format_msg m\<close> is \<open>protocol.format_msg(m, compact=True)\<close>, which builds one line
    from f-strings, slices and a comprehension over the message's values and raises
    where one of these does;
  \<^item> \<open>print_raises line\<close> is the exception that \<open>print(line)\<close> raises, if it raises:
    UnicodeEncodeError when the encoding of the standard output has no code for a
    character of the line.
\<close>

record env =
  clock :: "nat \<Rightarrow> string"
  py_str :: "pyval \<Rightarrow> py_error + string"
  format_msg :: "message \<Rightarrow> py_error + string"
  print_raises :: "string \<Rightarrow> py_error option"

text \<open>
  \<open>self.stats\<close> is a dict with the three keys that \<open>__init__\<close> gives it; no code adds or
  removes a key, so it is a record of three counters.
\<close>

record Stats =
  messages_received :: int
  messages_sent :: int
  rounds :: int

text \<open>The eight bound methods stored in the dispatch table of \<open>handle_message\<close>.\<close>

datatype handler =
    handle_hello
  | handle_peer_list
  | handle_ping
  | handle_pong
  | handle_view_event
  | handle_audit_result
  | handle_choke
  | handle_unchoke

text \<open>
  The state of a P2PNode. The transport is an external collaborator; what the node does
  to it is recorded in \<open>delete_calls\<close>, the arguments of every call of
  \<open>transport.delete\<close> so far. Two more fields record what the node does beyond its own
  attributes: \<open>stdout\<close>, the lines printed, and \<open>handler_calls\<close>, the handlers invoked with
  their messages.
\<close>

record P2PNode =
  node_id :: string
  verbose :: bool
  running :: bool
  my_queue_url :: "string option"
  gossip :: GossipNode
  heartbeat :: HeartbeatNode
  choking :: ChokingNode
  reputation :: ReputationNode
  gossip_interval :: real
  heartbeat_interval :: real
  choking_interval :: real
  reputation_interval :: real
  last_gossip :: real
  last_heartbeat :: real
  last_choking :: real
  last_reputation :: real
  ping_seq :: int
  stats :: Stats
  stdout :: "string list"
  handler_calls :: "(handler \<times> message) list"
  delete_calls :: "(string \<times> pyval) list"

text \<open>
  \<open>P2PNode.__init__\<close>: the four algorithm modules are constructed with their default
  parameters, the timers start at 0 and the counters at 0.
\<close>

definition P2PNode_init :: "string \<Rightarrow> bool \<Rightarrow> py_error + P2PNode" where
  "P2PNode_init nid vb =
     (case HeartbeatNode_init nid 3 2 of
        Inl e \<Rightarrow> Inl e
      | Inr hb \<Rightarrow>
          Inr \<lparr>node_id = nid, verbose = vb, running = False, my_queue_url = None,
               gossip = GossipNode_init nid [], heartbeat = hb,
               choking = ChokingNode_init nid 4 3, reputation = ReputationNode_init nid,
               gossip_interval = 15, heartbeat_interval = 10, choking_interval = 30,
               reputation_interval = 30,
               last_gossip = 0, last_heartbeat = 0, last_choking = 0, last_reputation = 0,
               ping_seq = 0,
               stats = \<lparr>messages_received = 0, messages_sent = 0, rounds = 0\<rparr>,
               stdout = [], handler_calls = [], delete_calls = []\<rparr>)"

text \<open>
  \<^verbatim>\<open>
  def _log(self, message):
      ts = datetime.now().strftime("%H:%M:%S")
      print(f"[{ts}] [{self.node_id}] {message}")
  \<close>
  (\<open>node_log\<close> in the model; a leading underscore of a source name is dropped.)
  When \<open>print\<close> raises, the exception leaves \<open>_log\<close> and no line is recorded.
\<close>

definition log_line :: "env \<Rightarrow> P2PNode \<Rightarrow> string \<Rightarrow> string" where
  "log_line ev s message =
     ''['' @ clock ev (length (stdout s)) @ ''] ['' @ node_id s @ ''] '' @ message"

definition node_log :: "env \<Rightarrow> string \<Rightarrow> P2PNode \<Rightarrow> py_error option \<times> P2PNode" where
  "node_log ev message s =
     (case print_raises ev (log_line ev s message) of
        Some e \<Rightarrow> (Some e, s)
      | None \<Rightarrow> (None, s\<lparr>stdout := stdout s @ [log_line ev s message]\<rparr>))"

text \<open>
  Every handler of the source is the stub \<^verbatim>\<open>raise NotImplementedError\<close>: invoking one
  raises at once.
\<close>

definition invoke :: "handler \<Rightarrow> message \<Rightarrow> P2PNode \<Rightarrow> py_error option \<times> P2PNode" where
  "invoke h m s = (Some NotImplementedError, s\<lparr>handler_calls := handler_calls s @ [(h, m)]\<rparr>)"

text \<open>
  The dispatch table and \<open>handlers.get(msg_type)\<close>. The keys are the eight type strings;
  a key of another hashable type equals none of them, and looking up a list or a dict
  raises TypeError (unhashable type).
\<close>

definition handlers :: "(string \<times> handler) list" where
  "handlers =
     [(HELLO, handle_hello), (PEER_LIST, handle_peer_list), (PING, handle_ping),
      (PONG, handle_pong), (VIEW_EVENT, handle_view_event),
      (AUDIT_RESULT, handle_audit_result), (CHOKE, handle_choke), (UNCHOKE, handle_unchoke)]"

fun hashable :: "pyval \<Rightarrow> bool" where
  "hashable (PList xs) = False"
| "hashable (PDict kvs) = False"
| "hashable v = True"

definition handlers_get :: "pyval \<Rightarrow> py_error + handler option" where
  "handlers_get k =
     (if \<not> hashable k then Inl TypeError
      else case k of PStr t \<Rightarrow> Inr (map_of handlers t) | _ \<Rightarrow> Inr None)"

text \<open>
  \<^verbatim>\<open>
  def handle_message(self, msg):
      msg_type = msg.get("type")
      sender   = msg.get("sender", "?")
      if sender == self.node_id:
          return
      self.stats["messages_received"] += 1
      handlers = {...}
      handler = handlers.get(msg_type)
      if handler:
          if self.verbose:
              self._log(f"<- {protocol.format_msg(msg, compact=True)}")
          handler(msg)
      else:
          self._log(f"Unknown message type: {msg_type}")
  \<close>
  The result is the exception raised, if any, and the node as the call leaves it.
\<close>

definition handle_message :: "env \<Rightarrow> P2PNode \<Rightarrow> message \<Rightarrow> py_error option \<times> P2PNode" where
  "handle_message ev s m =
     (let msg_type = dict_get m ''type'' PNone;
          sender = dict_get m ''sender'' (PStr ''?'')
      in if sender = PStr (node_id s) then (None, s)
         else
           let s1 = s\<lparr>stats := (stats s)\<lparr>messages_received := messages_received (stats s) + 1\<rparr>\<rparr>
           in case handlers_get msg_type of
                Inl e \<Rightarrow> (Some e, s1)
              | Inr (Some h) \<Rightarrow>
                  (if verbose s1 then
                     (case format_msg ev m of
                        Inl e \<Rightarrow> (Some e, s1)
                      | Inr line \<Rightarrow>
                          (case node_log ev (''<- '' @ line) s1 of
                             (Some e, s2) \<Rightarrow> (Some e, s2)
                           | (None, s2) \<Rightarrow> invoke h m s2))
                   else invoke h m s1)
              | Inr None \<Rightarrow>
                  (case py_str ev msg_type of
                     Inl e \<Rightarrow> (Some e, s1)
                   | Inr t \<Rightarrow> node_log ev (''Unknown message type: '' @ t) s1))"

text \<open>
  The body of the main loop of \<open>run\<close>.
  \<^verbatim>\<open>
  for msg in messages:
      self.handle_message(msg)
      receipt = msg.pop("_receipt_handle", None)
      if receipt:
          self.transport.delete(self.node_id, receipt)
  \<close>
  \<open>truthy\<close> is Python's truth value of a decoded value.
\<close>

fun truthy :: "pyval \<Rightarrow> bool" where
  "truthy PNone = False"
| "truthy (PBool b) = b"
| "truthy (PInt i) = (i \<noteq> 0)"
| "truthy (PFloat x) = (x \<noteq> Finite 0)"
| "truthy (PStr t) = (t \<noteq> [])"
| "truthy (PList xs) = (xs \<noteq> [])"
| "truthy (PDict kvs) = (kvs \<noteq> [])"

text \<open>
  \<open>SQSTransport.delete(node_id, receipt_handle)\<close> resolves the queue URL and asks the SQS
  client to delete the message, swallowing the client's \<open>ClientError\<close>. The client is
  not part of the model: a call is recorded with its arguments and returns.
\<close>

definition transport_delete :: "string \<Rightarrow> pyval \<Rightarrow> P2PNode \<Rightarrow> P2PNode" where
  "transport_delete nid receipt_handle s =
     s\<lparr>delete_calls := delete_calls s @ [(nid, receipt_handle)]\<rparr>"

definition acknowledge :: "message \<Rightarrow> P2PNode \<Rightarrow> P2PNode" where
  "acknowledge m s =
     (let receipt = dict_get m ''_receipt_handle'' PNone
      in if truthy receipt then transport_delete (node_id s) receipt s else s)"

fun process_messages :: "env \<Rightarrow> P2PNode \<Rightarrow> message list \<Rightarrow> py_error option \<times> P2PNode" where
  "process_messages ev s [] = (None, s)"
| "process_messages ev s (m # ms) =
     (case handle_message ev s m of
        (Some e, s1) \<Rightarrow> (Some e, s1)
      | (None, s1) \<Rightarrow> process_messages ev (acknowledge m s1) ms)"

text \<open>
  The periodic tasks. \<open>_do_gossip\<close>, \<open>_do_heartbeat\<close>, \<open>_do_choking\<close> and
  \<open>_do_reputation\<close> are stubs that raise, so the first timer that is due ends the call
  before its \<open>_last_\<close> field is updated. \<open>now\<close> is the reading of \<open>time.time()\<close>.
\<close>

definition run_periodic_tasks :: "real \<Rightarrow> P2PNode \<Rightarrow> py_error option \<times> P2PNode" where
  "run_periodic_tasks now s =
     (if now - last_gossip s \<ge> gossip_interval s then (Some NotImplementedError, s)
      else if now - last_heartbeat s \<ge> heartbeat_interval s then (Some NotImplementedError, s)
      else if now - last_choking s \<ge> choking_interval s then (Some NotImplementedError, s)
      else if now - last_reputation s \<ge> reputation_interval s then (Some NotImplementedError, s)
      else (None, s))"

text \<open>
  One iteration of \<open>while self.running\<close>, for the batch that \<open>transport.receive\<close>
  returned:
  \<^verbatim>\<open>
  self.stats["rounds"] += 1
  messages = self.transport.receive(self.node_id, max_messages=10, wait_seconds=5)
  for msg in messages: ...
  self._run_periodic_tasks()
  self.gossip.age_entries()
  \<close>
\<close>

definition run_iteration ::
  "env \<Rightarrow> real \<Rightarrow> P2PNode \<Rightarrow> message list \<Rightarrow> py_error option \<times> P2PNode" where
  "run_iteration ev now s messages =
     (let s0 = s\<lparr>stats := (stats s)\<lparr>rounds := rounds (stats s) + 1\<rparr>\<rparr>
      in case process_messages ev s0 messages of
           (Some e, s1) \<Rightarrow> (Some e, s1)
         | (None, s1) \<Rightarrow>
             (case run_periodic_tasks now s1 of
                (Some e, s2) \<Rightarrow> (Some e, s2)
              | (None, s2) \<Rightarrow>
                  (case age_entries (gossip s2) of
                     (Some e, g) \<Rightarrow> (Some e, s2\<lparr>gossip := g\<rparr>)
                   | (None, g) \<Rightarrow> (None, s2\<lparr>gossip := g\<rparr>))))"

text \<open>The calls of \<open>transport.delete\<close> that acknowledge a list of messages, in order.\<close>

definition acks :: "string \<Rightarrow> message list \<Rightarrow> (string \<times> pyval) list" where
  "acks nid ms =
     map (\<lambda>m. (nid, dict_get m ''_receipt_handle'' PNone))
       (filter (\<lambda>m. truthy (dict_get m ''_receipt_handle'' PNone)) ms)"

section \<open>Properties\<close>

subsection \<open>Floats\<close>

lemma round_half_even_of_int: "round_half_even (of_int n) = n"
  by (simp add: round_half_even_def)

lemma double_exponent_le:
  assumes "x = of_int n * 2 powi k" and "\<bar>n\<bar> < 2 ^ 53" and "- 1074 \<le> k" and "n \<noteq> 0"
  shows "double_exponent x - 52 \<le> k"
proof -
  have ax: "\<bar>x\<bar> = of_int \<bar>n\<bar> * 2 powi k" using assms(1) by (simp add: abs_mult)
  have pos: "0 < \<bar>x\<bar>" using assms(4) ax by simp
  have "\<bar>x\<bar> < 2 ^ 53 * 2 powi k"
  proof -
    have "real_of_int \<bar>n\<bar> < 2 ^ 53"
      using assms(2) by (metis of_int_less_numeral_power_cancel_iff)
    then show ?thesis unfolding ax by simp
  qed
  also have "\<dots> = 2 powi (53 + k)" by (simp add: power_int_add)
  also have "\<dots> = 2 powr real_of_int (53 + k)"
    using powr_real_of_int' [of 2 "53 + k"] by simp
  finally have "\<bar>x\<bar> < 2 powr real_of_int (53 + k)" .
  then have "log 2 \<bar>x\<bar> < real_of_int (53 + k)" using pos by (simp add: log_less_iff)
  then have "\<lfloor>log 2 \<bar>x\<bar>\<rfloor> < 53 + k" by linarith
  with assms(3) show ?thesis by (simp add: double_exponent_def)
qed

text \<open>
  A number \<open>n * 2 ^ k\<close> with a significand \<open>n\<close> of at most 53 bits and an exponent \<open>k\<close>
  not below that of the smallest subnormal is a float: rounding leaves it as it is.
\<close>

lemma round_double_dyadic:
  assumes "x = of_int n * 2 powi k" and "\<bar>n\<bar> < 2 ^ 53" and "- 1074 \<le> k"
  shows "round_double x = x"
proof (cases "n = 0")
  case True
  with assms(1) show ?thesis by (simp add: round_double_def)
next
  case False
  define e where "e = double_exponent x - 52"
  have le: "e \<le> k" unfolding e_def by (rule double_exponent_le [OF assms False])
  have "x / 2 powi e = of_int n * 2 powi (k - e)"
    unfolding assms(1) by (simp add: power_int_diff)
  also have "\<dots> = of_int (n * 2 ^ nat (k - e))" using le by (simp add: power_int_def)
  finally have q: "x / 2 powi e = of_int (n * 2 ^ nat (k - e))" .
  have "round_double x = (if x = 0 then 0 else of_int (n * 2 ^ nat (k - e)) * 2 powi e)"
    unfolding round_double_def e_def [symmetric] q round_half_even_of_int ..
  also have "\<dots> = (if x = 0 then 0 else x / 2 powi e * 2 powi e)" using q by simp
  also have "\<dots> = x" by simp
  finally show ?thesis .
qed

lemma round_double_of_int: "\<bar>n\<bar> < 2 ^ 53 \<Longrightarrow> round_double (of_int n) = of_int n"
  using round_double_dyadic [of "of_int n" n 0] by simp

lemma not_double_overflow: "\<bar>x\<bar> \<le> 2 ^ 53 \<Longrightarrow> \<not> double_overflow x"
  by (simp add: double_overflow_def)

lemma abs_quotient_le_1:
  fixes a b :: int
  assumes "\<bar>a\<bar> \<le> \<bar>b\<bar>"
  shows "\<bar>real_of_int a / real_of_int b\<bar> \<le> 1"
proof (cases "b = 0")
  case True
  then show ?thesis by simp
next
  case False
  have "\<bar>real_of_int a\<bar> \<le> \<bar>real_of_int b\<bar>" using assms by linarith
  with False show ?thesis by (simp add: abs_divide)
qed



subsection \<open>Heartbeat: response rate\<close>

text \<open>
  The counters of a PeerState are unbounded ints. When the quotient of two of them is
  beyond the range of a float the division raises OverflowError, as for one ping and
  \<open>10 ^ 309\<close> pongs.
\<close>

lemma response_rate_overflow:
  "response_rate \<lparr>ps_node_id = ''b'', ps_status = ALIVE, consecutive_misses = 0,
      last_pong_round = 0, total_pings_sent = 1, total_pongs_received = 10 ^ 309\<rparr>
   = Inl OverflowError"
  by (simp add: response_rate_def py_truediv_def double_overflow_def)



subsection \<open>Choking: reciprocity ratio\<close>

text \<open>
  C7. For every PeerTracker, \<open>reciprocity_ratio\<close> is \<open>contributed / received\<close> when
  \<open>received > 0\<close>, and \<open>contributed\<close> as a float when \<open>received = 0\<close>. Here
  \<open>contributed / received\<close> is Python's division of the two ints and \<open>float(contributed)\<close>
  its conversion: the float nearest to the exact value, and OverflowError where that
  value is beyond the range of a float. An int below \<open>2 ^ 53\<close> in magnitude is converted
  without rounding.
\<close>

theorem reciprocity_ratio_spec:
  "(received t > 0 \<longrightarrow> reciprocity_ratio t = py_truediv (contributed t) (received t)) \<and>
   (received t = 0 \<longrightarrow> reciprocity_ratio t = py_float (contributed t)) \<and>
   (received t > 0 \<and>
    \<not> double_overflow (real_of_int (contributed t) / real_of_int (received t)) \<longrightarrow>
      reciprocity_ratio t =
        Inr (round_double (real_of_int (contributed t) / real_of_int (received t)))) \<and>
   (received t > 0 \<and>
    double_overflow (real_of_int (contributed t) / real_of_int (received t)) \<longrightarrow>
      reciprocity_ratio t = Inl OverflowError) \<and>
   (received t = 0 \<and> \<not> double_overflow (real_of_int (contributed t)) \<longrightarrow>
      reciprocity_ratio t = Inr (round_double (real_of_int (contributed t)))) \<and>
   (received t = 0 \<and> double_overflow (real_of_int (contributed t)) \<longrightarrow>
      reciprocity_ratio t = Inl OverflowError) \<and>
   (received t = 0 \<and> \<bar>contributed t\<bar> < 2 ^ 53 \<longrightarrow>
      reciprocity_ratio t = Inr (real_of_int (contributed t)))"
proof -
  have "reciprocity_ratio t = Inr (real_of_int (contributed t))"
    if r: "received t = 0" and c: "\<bar>contributed t\<bar> < 2 ^ 53"
  proof -
    have "\<bar>real_of_int (contributed t)\<bar> \<le> 2 ^ 53"
    proof -
      have "real_of_int \<bar>contributed t\<bar> \<le> real_of_int (2 ^ 53)" using c by linarith
      then show ?thesis by simp
    qed
    then have "\<not> double_overflow (real_of_int (contributed t))" by (rule not_double_overflow)
    with r round_double_of_int [OF c] show ?thesis
      by (simp add: reciprocity_ratio_def py_float_def)
  qed
  then show ?thesis by (simp add: reciprocity_ratio_def py_truediv_def py_float_def)
qed

theorem reciprocity_ratio_spec_witness:
  "received \<lparr>pt_node_id = ''b'', contributed = 50, received = 20, is_choked = True,
      is_interested = True, rounds_choked = 0\<rparr> > 0 \<and>
   \<not> double_overflow (5 / 2) \<and>
   reciprocity_ratio \<lparr>pt_node_id = ''b'', contributed = 50, received = 20, is_choked = True,
      is_interested = True, rounds_choked = 0\<rparr> = Inr (5 / 2) \<and>
   received \<lparr>pt_node_id = ''c'', contributed = 7, received = 0, is_choked = True,
      is_interested = True, rounds_choked = 0\<rparr> = 0 \<and>
   reciprocity_ratio \<lparr>pt_node_id = ''c'', contributed = 7, received = 0, is_choked = True,
      is_interested = True, rounds_choked = 0\<rparr> = Inr 7"
proof -
  have r: "round_double (5 / 2) = 5 / 2"
    using round_double_dyadic [of "5 / 2" 5 "- 1"] by (simp add: power_int_minus)
  have o: "\<not> double_overflow (5 / 2)" by (rule not_double_overflow) simp
  have "reciprocity_ratio \<lparr>pt_node_id = ''b'', contributed = 50, received = 20,
      is_choked = True, is_interested = True, rounds_choked = 0\<rparr> = Inr (round_double (5 / 2))"
    using o reciprocity_ratio_spec [THEN conjunct2, THEN conjunct2, THEN conjunct1,
      of "\<lparr>pt_node_id = ''b'', contributed = 50, received = 20,
      is_choked = True, is_interested = True, rounds_choked = 0\<rparr>"]
    by simp
  then have 1: "reciprocity_ratio \<lparr>pt_node_id = ''b'', contributed = 50, received = 20,
      is_choked = True, is_interested = True, rounds_choked = 0\<rparr> = Inr (5 / 2)"
    by (simp only: r)
  have 2: "reciprocity_ratio \<lparr>pt_node_id = ''c'', contributed = 7, received = 0,
      is_choked = True, is_interested = True, rounds_choked = 0\<rparr> = Inr 7"
    using reciprocity_ratio_spec [THEN conjunct2, THEN conjunct2, THEN conjunct2,
      THEN conjunct2, THEN conjunct2, THEN conjunct2,
      of "\<lparr>pt_node_id = ''c'', contributed = 7, received = 0,
      is_choked = True, is_interested = True, rounds_choked = 0\<rparr>"]
    by simp
  from 1 2 o show ?thesis by simp
qed

subsection \<open>Heartbeat: construction\<close>

text \<open>
  C2 (as stated, refuted). The claim says that constructing a HeartbeatNode with
  \<open>miss_threshold \<le> grace_period\<close> raises. With \<open>miss_threshold = 2\<close> and
  \<open>grace_period = 2\<close> the constructor returns a node holding exactly these values.
\<close>

theorem HeartbeatNode_init_no_check_counterexample:
  "(2::int) \<le> 2 \<and>
   HeartbeatNode_init ''node-a'' 2 2 =
     Inr \<lparr>hb_node_id = ''node-a'', miss_threshold = 2, grace_period = 2, hb_peers = [], hb_log = []\<rparr>"
  by (simp add: HeartbeatNode_init_def)

text \<open>
  C2 (amended). The constructor checks nothing: for every node id and every pair of
  integers, whatever their order, it returns a node that stores the id and both
  parameters as given, with an empty peer table and an empty log. Keeping
  \<open>miss_threshold > grace_period\<close> is left to the caller.
\<close>

theorem HeartbeatNode_init_stores_arguments:
  "\<exists>h. HeartbeatNode_init nid mt gp = Inr h \<and> hb_node_id h = nid \<and>
       miss_threshold h = mt \<and> grace_period h = gp \<and> hb_peers h = [] \<and> hb_log h = []"
  by (simp add: HeartbeatNode_init_def)

subsection \<open>Gossip: peer count\<close>




subsection \<open>Reputation: the three signals\<close>

text \<open>
  C8. For every ReputationRecord whose counters of events are not negative, each signal
  is the quotient when its denominator is positive and 0.5 otherwise:
  \<open>accuracy = reports_accurate / reports_total\<close>,
  \<open>uptime = heartbeats_responded / heartbeats_total\<close>,
  \<open>reciprocity = contributions / (contributions + consumptions)\<close>. The quotient is
  Python's division of the two ints: the float nearest to the exact quotient, which it
  returns whenever the numerator does not exceed the denominator in magnitude.
\<close>

theorem reputation_signals_spec:
  assumes "0 \<le> reports_total r" and "0 \<le> heartbeats_total r"
    and "0 \<le> contributions r + consumptions r"
  shows "(reports_total r > 0 \<longrightarrow>
            accuracy r = py_truediv (reports_accurate r) (reports_total r)) \<and>
         (\<not> reports_total r > 0 \<longrightarrow> accuracy r = Inr (1 / 2)) \<and>
         (reports_total r > 0 \<and> \<bar>reports_accurate r\<bar> \<le> reports_total r \<longrightarrow>
            accuracy r =
              Inr (round_double (real_of_int (reports_accurate r) / real_of_int (reports_total r)))) \<and>
         (heartbeats_total r > 0 \<longrightarrow>
            uptime r = py_truediv (heartbeats_responded r) (heartbeats_total r)) \<and>
         (\<not> heartbeats_total r > 0 \<longrightarrow> uptime r = Inr (1 / 2)) \<and>
         (heartbeats_total r > 0 \<and> \<bar>heartbeats_responded r\<bar> \<le> heartbeats_total r \<longrightarrow>
            uptime r =
              Inr (round_double
                (real_of_int (heartbeats_responded r) / real_of_int (heartbeats_total r)))) \<and>
         (contributions r + consumptions r > 0 \<longrightarrow>
            reciprocity r = py_truediv (contributions r) (contributions r + consumptions r)) \<and>
         (\<not> contributions r + consumptions r > 0 \<longrightarrow> reciprocity r = Inr (1 / 2)) \<and>
         (contributions r + consumptions r > 0 \<and>
          \<bar>contributions r\<bar> \<le> contributions r + consumptions r \<longrightarrow>
            reciprocity r =
              Inr (round_double
                (real_of_int (contributions r) / real_of_int (contributions r + consumptions r))))"
proof -
  have q: "py_truediv a b = Inr (round_double (real_of_int a / real_of_int b))"
    if "b > 0" and "\<bar>a\<bar> \<le> b" for a b :: int
  proof -
    from that have "\<bar>a\<bar> \<le> \<bar>b\<bar>" by simp
    from abs_quotient_le_1 [OF this]
    have "\<not> double_overflow (real_of_int a / real_of_int b)"
      by (intro not_double_overflow) simp
    with that show ?thesis by (simp add: py_truediv_def)
  qed
  have a: "reports_total r > 0 \<longrightarrow>
      accuracy r = py_truediv (reports_accurate r) (reports_total r)"
    by (simp add: accuracy_def)
  have a0: "\<not> reports_total r > 0 \<longrightarrow> accuracy r = Inr (1 / 2)"
    using assms(1) by (simp add: accuracy_def)
  have u: "heartbeats_total r > 0 \<longrightarrow>
      uptime r = py_truediv (heartbeats_responded r) (heartbeats_total r)"
    by (simp add: uptime_def)
  have u0: "\<not> heartbeats_total r > 0 \<longrightarrow> uptime r = Inr (1 / 2)"
    using assms(2) by (simp add: uptime_def)
  have c: "contributions r + consumptions r > 0 \<longrightarrow>
      reciprocity r = py_truediv (contributions r) (contributions r + consumptions r)"
    by (simp add: reciprocity_def Let_def)
  have c0: "\<not> contributions r + consumptions r > 0 \<longrightarrow> reciprocity r = Inr (1 / 2)"
    using assms(3) by (simp add: reciprocity_def Let_def)
  from a a0 u u0 c c0
    q [of "reports_total r" "reports_accurate r"]
    q [of "heartbeats_total r" "heartbeats_responded r"]
    q [of "contributions r + consumptions r" "contributions r"]
  show ?thesis by presburger
qed

theorem reputation_signals_spec_witness:
  "0 \<le> reports_total \<lparr>rr_node_id = ''b'', reports_total = 4, reports_accurate = 3,
        heartbeats_total = 0, heartbeats_responded = 0, contributions = 3, consumptions = 1,
        decay_factor = 95 / 100, trust_score = 1 / 2\<rparr> \<and>
   0 \<le> heartbeats_total \<lparr>rr_node_id = ''b'', reports_total = 4, reports_accurate = 3,
        heartbeats_total = 0, heartbeats_responded = 0, contributions = 3, consumptions = 1,
        decay_factor = 95 / 100, trust_score = 1 / 2\<rparr> \<and>
   accuracy \<lparr>rr_node_id = ''b'', reports_total = 4, reports_accurate = 3,
        heartbeats_total = 0, heartbeats_responded = 0, contributions = 3, consumptions = 1,
        decay_factor = 95 / 100, trust_score = 1 / 2\<rparr> = Inr (3 / 4) \<and>
   uptime \<lparr>rr_node_id = ''b'', reports_total = 4, reports_accurate = 3,
        heartbeats_total = 0, heartbeats_responded = 0, contributions = 3, consumptions = 1,
        decay_factor = 95 / 100, trust_score = 1 / 2\<rparr> = Inr (1 / 2) \<and>
   reciprocity \<lparr>rr_node_id = ''b'', reports_total = 4, reports_accurate = 3,
        heartbeats_total = 0, heartbeats_responded = 0, contributions = 3, consumptions = 1,
        decay_factor = 95 / 100, trust_score = 1 / 2\<rparr> = Inr (3 / 4)"
proof -
  define r where "r = \<lparr>rr_node_id = ''b'', reports_total = 4, reports_accurate = 3,
        heartbeats_total = 0, heartbeats_responded = 0, contributions = 3, consumptions = 1,
        decay_factor = 95 / 100, trust_score = 1 / 2\<rparr>"
  have rd: "round_double (3 / 4) = 3 / 4"
    using round_double_dyadic [of "3 / 4" 3 "- 2"] by (simp add: power_int_minus)
  have h: "0 \<le> reports_total r" "0 \<le> heartbeats_total r" "0 \<le> contributions r + consumptions r"
    by (simp_all add: r_def)
  note spec = reputation_signals_spec [OF h]
  from spec [THEN conjunct2, THEN conjunct2, THEN conjunct1]
  have "accuracy r = Inr (round_double (3 / 4))" by (simp add: r_def)
  then have a: "accuracy r = Inr (3 / 4)" by (simp only: rd)
  from spec [THEN conjunct2, THEN conjunct2, THEN conjunct2, THEN conjunct2, THEN conjunct1]
  have u: "uptime r = Inr (1 / 2)" by (simp add: r_def)
  from spec [THEN conjunct2, THEN conjunct2, THEN conjunct2, THEN conjunct2, THEN conjunct2,
      THEN conjunct2, THEN conjunct2, THEN conjunct2]
  have "reciprocity r = Inr (round_double (3 / 4))" by (simp add: r_def)
  then have c: "reciprocity r = Inr (3 / 4)" by (simp only: rd)
  from a u c h show ?thesis unfolding r_def by simp
qed

subsection \<open>Protocol: base fields of every built message\<close>

lemma base_has_base_fields:
  "length uuid4 = 36 \<Longrightarrow> has_base_fields t sender now (base now uuid4 t sender)"
  by (simp add: has_base_fields_def base_def)

lemma has_base_fields_upd:
  "has_base_fields t sender now m \<Longrightarrow> k \<notin> {''type'', ''sender'', ''timestamp'', ''msg_id''} \<Longrightarrow>
   has_base_fields t sender now (m(k \<mapsto> v))"
  by (auto simp add: has_base_fields_def)

text \<open>
  C6. Every message produced by one of the eight builders contains the base fields
  \<open>type\<close> (the builder's type constant), \<open>sender\<close>, \<open>timestamp\<close> (the string returned
  by the UTC clock's \<open>isoformat()\<close>) and \<open>msg_id\<close>, and the \<open>msg_id\<close> string has exactly
  8 characters. The only fact used about the library is that \<open>str(uuid.uuid4())\<close> has
  36 characters.
\<close>

theorem builders_have_base_fields:
  assumes "length uuid4 = 36"
  shows "has_base_fields HELLO sender now (hello now uuid4 sender queue_url) \<and>
         has_base_fields PEER_LIST sender now (peer_list now uuid4 sender peers) \<and>
         has_base_fields PING sender now (ping now uuid4 sender seq) \<and>
         has_base_fields PONG sender now (pong now uuid4 sender seq) \<and>
         has_base_fields VIEW_EVENT sender now
           (view_event now uuid4 sender event_id content_id count ad_id) \<and>
         has_base_fields AUDIT_RESULT sender now
           (audit_result round4 now uuid4 sender content_id agreed_count confidence voters) \<and>
         has_base_fields CHOKE sender now (choke now uuid4 sender) \<and>
         has_base_fields UNCHOKE sender now (unchoke now uuid4 sender)"
proof -
  note b = base_has_base_fields [OF assms]
  have 1: "has_base_fields HELLO sender now (hello now uuid4 sender queue_url)"
    unfolding hello_def by (intro has_base_fields_upd b) simp
  have 2: "has_base_fields PEER_LIST sender now (peer_list now uuid4 sender peers)"
    unfolding peer_list_def by (intro has_base_fields_upd b) simp
  have 3: "has_base_fields PING sender now (ping now uuid4 sender seq)"
    unfolding ping_def by (intro has_base_fields_upd b) simp
  have 4: "has_base_fields PONG sender now (pong now uuid4 sender seq)"
    unfolding pong_def by (intro has_base_fields_upd b) simp
  have 5: "has_base_fields VIEW_EVENT sender now
             (view_event now uuid4 sender event_id content_id count ad_id)"
    unfolding view_event_def by (intro has_base_fields_upd b) simp_all
  have 6: "has_base_fields AUDIT_RESULT sender now
             (audit_result round4 now uuid4 sender content_id agreed_count confidence voters)"
    unfolding audit_result_def by (intro has_base_fields_upd b) simp_all
  have 7: "has_base_fields CHOKE sender now (choke now uuid4 sender)"
    unfolding choke_def by (rule b)
  have 8: "has_base_fields UNCHOKE sender now (unchoke now uuid4 sender)"
    unfolding unchoke_def by (rule b)
  from 1 2 3 4 5 6 7 8 show ?thesis by blast
qed

theorem builders_have_base_fields_witness:
  "length ''3f2b8c1e-7a4d-4e2b-9c1f-0123456789ab'' = 36 \<and>
   has_base_fields HELLO ''hugo'' ''2026-01-15T10:30:00.123456+00:00''
     (hello ''2026-01-15T10:30:00.123456+00:00'' ''3f2b8c1e-7a4d-4e2b-9c1f-0123456789ab''
        ''hugo'' ''https://sqs.us-east-1.amazonaws.com/194722398367/ds2032-node-hugo-p2p'') \<and>
   hello ''2026-01-15T10:30:00.123456+00:00'' ''3f2b8c1e-7a4d-4e2b-9c1f-0123456789ab''
        ''hugo'' ''https://sqs.us-east-1.amazonaws.com/194722398367/ds2032-node-hugo-p2p''
        ''msg_id'' = Some (PStr ''3f2b8c1e'') \<and>
   has_base_fields AUDIT_RESULT ''hugo'' ''2026-01-15T10:30:00.123456+00:00''
     (audit_result py_round4 ''2026-01-15T10:30:00.123456+00:00''
        ''3f2b8c1e-7a4d-4e2b-9c1f-0123456789ab'' ''hugo'' ''video-42'' 150 (Finite (3 / 4))
        (Some [''sam'', ''phin'']))"
proof -
  have len: "length ''3f2b8c1e-7a4d-4e2b-9c1f-0123456789ab'' = 36" by simp
  have id: "hello ''2026-01-15T10:30:00.123456+00:00'' ''3f2b8c1e-7a4d-4e2b-9c1f-0123456789ab''
        ''hugo'' ''https://sqs.us-east-1.amazonaws.com/194722398367/ds2032-node-hugo-p2p''
        ''msg_id'' = Some (PStr ''3f2b8c1e'')"
    by (simp add: hello_def base_def)
  from len id builders_have_base_fields [OF len, of "''hugo''"
      "''2026-01-15T10:30:00.123456+00:00''"
      "''https://sqs.us-east-1.amazonaws.com/194722398367/ds2032-node-hugo-p2p''"
      "[]" 1 "''evt-001''" "''video-42''" 150 "''ad-7''" py_round4 150 "Finite (3 / 4)"
      "Some [''sam'', ''phin'']"]
  show ?thesis by blast
qed

subsection \<open>Protocol: the round trip through encode and decode\<close>
























subsection \<open>Node runtime: the dispatcher\<close>

lemma handlers_get_unknown:
  assumes "hashable k" and "\<forall>t\<in>set ALL_TYPES. k \<noteq> PStr t"
  shows "handlers_get k = Inr None"
  using assms by (cases k) (auto simp: handlers_get_def handlers_def ALL_TYPES_def)

text \<open>
  The branch of \<open>handle_message\<close> for a type that is hashable and not one of the eight
  known types: the counter is incremented, and then the line is formatted and printed.
  The call returns when both succeed, with one more line printed; it raises what the
  formatting or \<open>print\<close> raises, with no line printed.
\<close>

lemma handle_message_unknown:
  assumes "dict_get m ''sender'' (PStr ''?'') \<noteq> PStr (node_id s)"
    and "hashable (dict_get m ''type'' PNone)"
    and "\<forall>t\<in>set ALL_TYPES. dict_get m ''type'' PNone \<noteq> PStr t"
  shows "handle_message ev s m =
     (case py_str ev (dict_get m ''type'' PNone) of
        Inl e \<Rightarrow>
          (Some e, s\<lparr>stats := (stats s)\<lparr>messages_received := messages_received (stats s) + 1\<rparr>\<rparr>)
      | Inr t \<Rightarrow>
          (case print_raises ev (log_line ev s (''Unknown message type: '' @ t)) of
             Some e \<Rightarrow>
               (Some e,
                s\<lparr>stats := (stats s)\<lparr>messages_received := messages_received (stats s) + 1\<rparr>\<rparr>)
           | None \<Rightarrow>
               (None,
                s\<lparr>stats := (stats s)\<lparr>messages_received := messages_received (stats s) + 1\<rparr>,
                  stdout := stdout s @ [log_line ev s (''Unknown message type: '' @ t)]\<rparr>)))"
  using assms(1) handlers_get_unknown [OF assms(2,3)]
  by (simp add: handle_message_def Let_def node_log_def log_line_def
      split: sum.splits option.splits)

text \<open>
  An instance of the last case: the standard output is an ASCII stream and the type of
  the message is the string of the one character U+00E9. The message is counted,
  \<open>print\<close> raises UnicodeEncodeError, and nothing is printed.
\<close>

lemma unknown_type_print_raises:
  "handle_message
     \<lparr>clock = (\<lambda>n. ''12:00:00''),
      py_str = (\<lambda>v. case v of PStr t \<Rightarrow> Inr t | _ \<Rightarrow> Inr ''None''),
      format_msg = (\<lambda>m. Inr []),
      print_raises = (\<lambda>line. if list_all (\<lambda>c. of_char c < (128::nat)) line then None
                              else Some UnicodeEncodeError)\<rparr>
     (projr (P2PNode_init ''hugo'' False))
     [''type'' \<mapsto> PStr [CHR 0xE9], ''sender'' \<mapsto> PStr ''sam''] =
   (Some UnicodeEncodeError,
    (projr (P2PNode_init ''hugo'' False))
      \<lparr>stats := \<lparr>messages_received = 1, messages_sent = 0, rounds = 0\<rparr>\<rparr>)"
  by (simp add: handle_message_def dict_get_def handlers_get_def handlers_def node_log_def
      log_line_def P2PNode_init_def HeartbeatNode_init_def Let_def)

lemma node_log_frame:
  "delete_calls (snd (node_log ev line s)) = delete_calls s \<and>
   node_id (snd (node_log ev line s)) = node_id s"
  by (simp add: node_log_def split: option.splits)

lemma handle_message_frame:
  "delete_calls (snd (handle_message ev s m)) = delete_calls s \<and>
   node_id (snd (handle_message ev s m)) = node_id s"
  by (simp add: handle_message_def Let_def node_log_def invoke_def
      split: sum.splits option.splits prod.splits)

lemma acknowledge_frame:
  "node_id (acknowledge m s) = node_id s \<and>
   delete_calls (acknowledge m s) = delete_calls s @ acks (node_id s) [m]"
  by (simp add: acknowledge_def transport_delete_def acks_def Let_def)

lemma process_messages_append:
  "process_messages ev s (xs @ ys) =
     (case process_messages ev s xs of
        (Some e, s1) \<Rightarrow> (Some e, s1)
      | (None, s1) \<Rightarrow> process_messages ev s1 ys)"
  by (induction xs arbitrary: s) (auto split: prod.splits option.splits)

lemma acks_append: "acks nid (xs @ ys) = acks nid xs @ acks nid ys"
  by (simp add: acks_def)

lemma process_messages_returns:
  "process_messages ev s ms = (None, s1) \<Longrightarrow>
   node_id s1 = node_id s \<and> delete_calls s1 = delete_calls s @ acks (node_id s) ms"
proof (induction ms arbitrary: s)
  case Nil
  then show ?case by (simp add: acks_def)
next
  case (Cons m ms)
  obtain r s' where h: "handle_message ev s m = (r, s')" by (cases "handle_message ev s m")
  with Cons.prems have r: "r = None" by (cases r) auto
  from h handle_message_frame [of ev s m]
  have f: "delete_calls s' = delete_calls s" "node_id s' = node_id s" by auto
  from Cons.prems h r have "process_messages ev (acknowledge m s') ms = (None, s1)" by simp
  from Cons.IH [OF this] acknowledge_frame [of m s'] f
  show ?case using acks_append [of "node_id s" "[m]" ms] by simp
qed

text \<open>
  C4. A message whose \<open>sender\<close> field is the node's own id is dropped: \<open>handle_message\<close>
  returns without raising and the node is exactly as before. No handler is invoked
  (\<open>handler_calls\<close>), \<open>stats["messages_received"]\<close> is not incremented, nothing is printed
  and the four subsystem tables are untouched, since the whole state is unchanged.
\<close>

theorem own_echo_dropped:
  assumes "m ''sender'' = Some (PStr (node_id s))"
  shows "handle_message ev s m = (None, s)"
  using assms by (simp add: handle_message_def dict_get_def)

theorem own_echo_dropped_witness:
  "handle_message
     \<lparr>clock = (\<lambda>n. ''12:00:00''), py_str = (\<lambda>v. Inr ''None''),
      format_msg = (\<lambda>m. Inr ''[HELLO]''), print_raises = (\<lambda>line. None)\<rparr>
     (projr (P2PNode_init ''hugo'' True))
     (hello ''2026-01-15T10:30:00.123456+00:00'' ''3f2b8c1e-7a4d-4e2b-9c1f-0123456789ab''
        ''hugo'' ''https://sqs.example/ds2032-node-hugo-p2p'')
   = (None, projr (P2PNode_init ''hugo'' True))"
proof -
  have "hello ''2026-01-15T10:30:00.123456+00:00'' ''3f2b8c1e-7a4d-4e2b-9c1f-0123456789ab''
        ''hugo'' ''https://sqs.example/ds2032-node-hugo-p2p'' ''sender''
      = Some (PStr (node_id (projr (P2PNode_init ''hugo'' True))))"
    by (simp add: hello_def base_def P2PNode_init_def HeartbeatNode_init_def)
  then show ?thesis by (rule own_echo_dropped)
qed

text \<open>
  C9 (the code departs from the claim). A message from another node whose \<open>type\<close> is a
  JSON array is of none of the eight known types. \<open>handlers.get(msg_type)\<close> hashes the
  type and a list is unhashable: the call raises TypeError after it has counted the
  message, and the line for an unknown type is not printed.
\<close>

theorem unhashable_type_raises:
  "dict_get [''type'' \<mapsto> PList [], ''sender'' \<mapsto> PStr ''sam''] ''sender'' (PStr ''?'')
     \<noteq> PStr (node_id (projr (P2PNode_init ''hugo'' False))) \<and>
   dict_get [''type'' \<mapsto> PList [], ''sender'' \<mapsto> PStr ''sam''] ''type'' PNone
     \<notin> PStr ` set ALL_TYPES \<and>
   handle_message
     \<lparr>clock = (\<lambda>n. ''12:00:00''), py_str = (\<lambda>v. Inr ''[]''), format_msg = (\<lambda>m. Inr []),
      print_raises = (\<lambda>line. None)\<rparr>
     (projr (P2PNode_init ''hugo'' False))
     [''type'' \<mapsto> PList [], ''sender'' \<mapsto> PStr ''sam''] =
   (Some TypeError,
    (projr (P2PNode_init ''hugo'' False))
      \<lparr>stats := \<lparr>messages_received = 1, messages_sent = 0, rounds = 0\<rparr>\<rparr>) \<and>
   stdout ((projr (P2PNode_init ''hugo'' False))
      \<lparr>stats := \<lparr>messages_received = 1, messages_sent = 0, rounds = 0\<rparr>\<rparr>) = []"
  by (auto simp add: handle_message_def dict_get_def handlers_get_def P2PNode_init_def
      HeartbeatNode_init_def ALL_TYPES_def Let_def)

subsection \<open>Node runtime: acknowledging messages\<close>

lemma run_iteration_deletes:
  "delete_calls (snd (run_iteration ev now s ms)) =
   delete_calls (snd (process_messages ev
     (s\<lparr>stats := (stats s)\<lparr>rounds := rounds (stats s) + 1\<rparr>\<rparr>) ms))"
  by (simp add: run_iteration_def Let_def run_periodic_tasks_def age_entries_def
      split: prod.splits option.splits)

text \<open>
  C5. In the loop over a received batch, let the messages \<open>pre\<close> have been handled
  without raising. Then the calls of \<open>transport.delete\<close> made so far are exactly the
  acknowledgements of \<open>pre\<close>, in order. If \<open>handle_message\<close> raises on the next message
  \<open>m\<close>, the loop ends with that exception and no further call of \<open>transport.delete\<close>:
  neither \<open>m\<close> nor any later message of the batch is acknowledged. If it returns, the
  calls are unchanged by the handler and the receipt of \<open>m\<close> is deleted right after.
  The rest of a loop iteration (the round counter, the periodic tasks, the ageing of
  the gossip table) never calls \<open>transport.delete\<close>.
\<close>

theorem delete_only_after_handler_returns:
  assumes "process_messages ev s pre = (None, s1)"
  shows "delete_calls s1 = delete_calls s @ acks (node_id s) pre \<and>
    (\<forall>e s2. handle_message ev s1 m = (Some e, s2) \<longrightarrow>
        process_messages ev s (pre @ m # post) = (Some e, s2) \<and>
        delete_calls s2 = delete_calls s @ acks (node_id s) pre) \<and>
    (\<forall>s2. handle_message ev s1 m = (None, s2) \<longrightarrow>
        process_messages ev s (pre @ [m]) = (None, acknowledge m s2) \<and>
        delete_calls s2 = delete_calls s @ acks (node_id s) pre \<and>
        delete_calls (acknowledge m s2) = delete_calls s @ acks (node_id s) (pre @ [m])) \<and>
    delete_calls (snd (run_iteration ev now s0 msgs)) =
      delete_calls (snd (process_messages ev
        (s0\<lparr>stats := (stats s0)\<lparr>rounds := rounds (stats s0) + 1\<rparr>\<rparr>) msgs))"
proof -
  from process_messages_returns [OF assms]
  have n: "node_id s1 = node_id s"
    and d: "delete_calls s1 = delete_calls s @ acks (node_id s) pre" by simp_all
  have raise: "process_messages ev s (pre @ m # post) = (Some e, s2) \<and>
      delete_calls s2 = delete_calls s @ acks (node_id s) pre"
    if h: "handle_message ev s1 m = (Some e, s2)" for e s2
  proof -
    from h handle_message_frame [of ev s1 m] have "delete_calls s2 = delete_calls s1" by simp
    with d h assms show ?thesis by (simp add: process_messages_append)
  qed
  have ret: "process_messages ev s (pre @ [m]) = (None, acknowledge m s2) \<and>
      delete_calls s2 = delete_calls s @ acks (node_id s) pre \<and>
      delete_calls (acknowledge m s2) = delete_calls s @ acks (node_id s) (pre @ [m])"
    if h: "handle_message ev s1 m = (None, s2)" for s2
  proof -
    from h handle_message_frame [of ev s1 m]
    have f: "delete_calls s2 = delete_calls s1" "node_id s2 = node_id s1" by simp_all
    from h assms have "process_messages ev s (pre @ [m]) = (None, acknowledge m s2)"
      by (simp add: process_messages_append)
    with f d n acknowledge_frame [of m s2] show ?thesis by (simp add: acks_append)
  qed
  from d raise ret run_iteration_deletes [of ev now s0 msgs] show ?thesis by blast
qed

theorem delete_only_after_handler_returns_witness:
  "fst (process_messages
     \<lparr>clock = (\<lambda>n. ''12:00:00''), py_str = (\<lambda>v. Inr ''GOODBYE''), format_msg = (\<lambda>m. Inr []),
      print_raises = (\<lambda>line. None)\<rparr>
     (projr (P2PNode_init ''hugo'' False))
     ([[''type'' \<mapsto> PStr ''GOODBYE'', ''sender'' \<mapsto> PStr ''sam'',
        ''_receipt_handle'' \<mapsto> PStr ''r1'']] @
      [''type'' \<mapsto> PStr PING, ''sender'' \<mapsto> PStr ''sam'', ''seq'' \<mapsto> PInt 1,
       ''_receipt_handle'' \<mapsto> PStr ''r2''] #
      [[''type'' \<mapsto> PStr ''GOODBYE'', ''sender'' \<mapsto> PStr ''sam'',
        ''_receipt_handle'' \<mapsto> PStr ''r3'']])) = Some NotImplementedError \<and>
   delete_calls (snd (process_messages
     \<lparr>clock = (\<lambda>n. ''12:00:00''), py_str = (\<lambda>v. Inr ''GOODBYE''), format_msg = (\<lambda>m. Inr []),
      print_raises = (\<lambda>line. None)\<rparr>
     (projr (P2PNode_init ''hugo'' False))
     ([[''type'' \<mapsto> PStr ''GOODBYE'', ''sender'' \<mapsto> PStr ''sam'',
        ''_receipt_handle'' \<mapsto> PStr ''r1'']] @
      [''type'' \<mapsto> PStr PING, ''sender'' \<mapsto> PStr ''sam'', ''seq'' \<mapsto> PInt 1,
       ''_receipt_handle'' \<mapsto> PStr ''r2''] #
      [[''type'' \<mapsto> PStr ''GOODBYE'', ''sender'' \<mapsto> PStr ''sam'',
        ''_receipt_handle'' \<mapsto> PStr ''r3'']]))) = [(''hugo'', PStr ''r1'')]"
proof -
  define ev where "ev = \<lparr>clock = (\<lambda>n::nat. ''12:00:00''),
    py_str = (\<lambda>v::pyval. (Inr ''GOODBYE'' :: py_error + string)),
    format_msg = (\<lambda>m::message. (Inr [] :: py_error + string)),
    print_raises = (\<lambda>line::string. (None :: py_error option))\<rparr>"
  define s where "s = projr (P2PNode_init ''hugo'' False)"
  define m1 :: message where "m1 = [''type'' \<mapsto> PStr ''GOODBYE'', ''sender'' \<mapsto> PStr ''sam'',
        ''_receipt_handle'' \<mapsto> PStr ''r1'']"
  define m2 :: message where "m2 = [''type'' \<mapsto> PStr PING, ''sender'' \<mapsto> PStr ''sam'',
        ''seq'' \<mapsto> PInt 1, ''_receipt_handle'' \<mapsto> PStr ''r2'']"
  define m3 :: message where "m3 = [''type'' \<mapsto> PStr ''GOODBYE'', ''sender'' \<mapsto> PStr ''sam'',
        ''_receipt_handle'' \<mapsto> PStr ''r3'']"
  define s1 where "s1 = snd (process_messages ev s [m1])"
  define s2 where "s2 = snd (handle_message ev s1 m2)"
  have nid: "node_id s = ''hugo''" and dc: "delete_calls s = []" and vb: "\<not> verbose s"
    by (simp_all add: s_def P2PNode_init_def HeartbeatNode_init_def)
  have "fst (process_messages ev s [m1]) = None"
    by (simp add: m1_def nid ev_def handle_message_def dict_get_def handlers_get_def handlers_def
        node_log_def Let_def split: prod.splits)
  then have h1: "process_messages ev s [m1] = (None, s1)"
    by (simp add: s1_def prod_eq_iff)
  have "fst (handle_message ev s1 m2) = Some NotImplementedError"
    using process_messages_returns [OF h1] vb
    by (simp add: m2_def nid ev_def handle_message_def dict_get_def handlers_get_def handlers_def
        node_log_def Let_def invoke_def)
  then have h2: "handle_message ev s1 m2 = (Some NotImplementedError, s2)"
    by (simp add: s2_def prod_eq_iff)
  have a: "acks ''hugo'' [m1] = [(''hugo'', PStr ''r1'')]"
    by (simp add: acks_def m1_def dict_get_def)
  from delete_only_after_handler_returns [OF h1, of m2 "[m3]"] h2
  have "process_messages ev s ([m1] @ m2 # [m3]) = (Some NotImplementedError, s2)"
    and "delete_calls s2 = delete_calls s @ acks (node_id s) [m1]"
    by blast+
  then show ?thesis
    unfolding ev_def s_def m1_def m2_def m3_def
    using a nid dc by (simp add: m1_def s_def)
qed

end
